theory Spec2Isabelle
  imports Complex_Main
begin

section \<open>The stock price API: \<^verbatim>\<open>main.py\<close>\<close>

text \<open>
  The service is one FastAPI application with three GET routes. The only route with logic is
  \<^verbatim>\<open>get_stock_price\<close>: it upper-cases the path parameter, builds a Yahoo Finance URL, runs
  the crawl4ai crawler on it inside an \<^verbatim>\<open>async with\<close> block, decodes the extracted
  content with \<^verbatim>\<open>json.loads\<close> and answers with the price of the first extracted element.

  The crawler, \<^verbatim>\<open>json.loads\<close>, \<^verbatim>\<open>str.upper\<close> and the text of
  \<^verbatim>\<open>str(HTTPException(...))\<close> are library code that \<^verbatim>\<open>main.py\<close> only calls. They are
  the fields of a record \<open>world\<close>, and every theorem about the handler holds for each world.
\<close>

subsection \<open>Python values\<close>

text \<open>
  The values \<^verbatim>\<open>json.loads\<close> returns: \<^verbatim>\<open>None\<close>, \<^verbatim>\<open>bool\<close>, \<^verbatim>\<open>int\<close>, \<^verbatim>\<open>float\<close>,
  \<^verbatim>\<open>str\<close>, \<^verbatim>\<open>list\<close> and \<^verbatim>\<open>dict\<close> with string keys. A \<^verbatim>\<open>dict\<close> is an association
  list; a decoded \<^verbatim>\<open>dict\<close> holds each key once, so the first binding of a key is its only one.
  A \<^verbatim>\<open>float\<close> is the rational number it denotes (the non-finite floats that
  \<^verbatim>\<open>json.loads\<close> accepts as an extension are left out; they are truthy like every other
  non-zero float).
\<close>

datatype json =
    JNull
  | JBool bool
  | JInt int
  | JFloat rat
  | JString string
  | JArray "json list"
  | JObject "(string \<times> json) list"

text \<open>
  Instances of \<^verbatim>\<open>Exception\<close>. \<^verbatim>\<open>HTTPException\<close> carries \<^verbatim>\<open>status_code\<close> and
  \<^verbatim>\<open>detail\<close>; \<^verbatim>\<open>JSONDecodeError\<close> carries the text \<^verbatim>\<open>str(e)\<close>; every other class is
  \<open>PyException\<close> with its class name and the text \<^verbatim>\<open>str(e)\<close>. Signals that derive from
  \<^verbatim>\<open>BaseException\<close> only (task cancellation, interpreter exit) are not values of this type.
\<close>

datatype py_exception =
    HTTPException int string
  | JSONDecodeError string
  | PyException string string

text \<open>Truth value testing, \<^verbatim>\<open>bool(v)\<close>, as \<^verbatim>\<open>if data\<close> and \<^verbatim>\<open>not price\<close> use it.\<close>

fun truthy :: "json \<Rightarrow> bool" where
  "truthy JNull = False"
| "truthy (JBool b) = b"
| "truthy (JInt n) = (n \<noteq> 0)"
| "truthy (JFloat r) = (r \<noteq> 0)"
| "truthy (JString s) = (s \<noteq> [])"
| "truthy (JArray xs) = (xs \<noteq> [])"
| "truthy (JObject kvs) = (kvs \<noteq> [])"

fun type_name :: "json \<Rightarrow> string" where
  "type_name JNull = ''NoneType''"
| "type_name (JBool b) = ''bool''"
| "type_name (JInt n) = ''int''"
| "type_name (JFloat r) = ''float''"
| "type_name (JString s) = ''str''"
| "type_name (JArray xs) = ''list''"
| "type_name (JObject kvs) = ''dict''"

definition quoted :: "string \<Rightarrow> string" where
  "quoted s = CHR 0x27 # s @ [CHR 0x27]"

text \<open>
  \<^verbatim>\<open>data[0]\<close>. A list or a string gives its first element and raises \<^verbatim>\<open>IndexError\<close>
  when it is empty; a \<^verbatim>\<open>dict\<close> decoded from JSON has string keys only, so the key \<^verbatim>\<open>0\<close>
  is a \<^verbatim>\<open>KeyError\<close>; the other types are not subscriptable.
\<close>

fun getitem0 :: "json \<Rightarrow> py_exception + json" where
  "getitem0 (JArray []) = Inl (PyException ''IndexError'' ''list index out of range'')"
| "getitem0 (JArray (x # xs)) = Inr x"
| "getitem0 (JString []) = Inl (PyException ''IndexError'' ''string index out of range'')"
| "getitem0 (JString (c # cs)) = Inr (JString [c])"
| "getitem0 (JObject kvs) = Inl (PyException ''KeyError'' ''0'')"
| "getitem0 v = Inl (PyException ''TypeError'' (quoted (type_name v) @ '' object is not subscriptable''))"

text \<open>\<^verbatim>\<open>x.get(key, None)\<close>: only a \<^verbatim>\<open>dict\<close> has the method.\<close>

fun get_or_None :: "json \<Rightarrow> string \<Rightarrow> py_exception + json" where
  "get_or_None (JObject kvs) key = Inr (case map_of kvs key of None \<Rightarrow> JNull | Some v \<Rightarrow> v)"
| "get_or_None v key =
     Inl (PyException ''AttributeError''
           (quoted (type_name v) @ '' object has no attribute '' @ quoted ''get''))"

subsection \<open>The configuration handed to the crawler\<close>

record BrowserConfig =
  headless :: bool
  user_agent_mode :: string
  text_mode :: bool
  light_mode :: bool

datatype extraction_strategy = JsonCssExtractionStrategy json

datatype scraping_strategy = LXMLWebScrapingStrategy

record CrawlerRunConfig =
  exclude_external_links :: bool
  remove_overlay_elements :: bool
  extraction_strategy :: extraction_strategy
  scraping_strategy :: scraping_strategy
  js_code :: string
  wait_for :: string

definition schema :: json where
  "schema =
     JObject
      [(''baseSelector'', JString ''div.container.yf-16vvaki''),
       (''fields'',
        JArray
         [JObject
           [(''name'', JString ''price''),
            (''selector'', JString ''span''),
            (''type'', JString ''text'')]])]"

definition browser_config :: BrowserConfig where
  "browser_config =
     \<lparr>headless = True, user_agent_mode = ''random'', text_mode = True, light_mode = True\<rparr>"

definition nl :: string where
  "nl = [CHR 0x0A]"

definition click_cookie_button_js :: string where
  \<open>click_cookie_button_js =
     nl @
     ''    (function() {'' @ nl @
     ''        const acceptButton = document.querySelector('button.accept-all');'' @ nl @
     ''        if (acceptButton) {'' @ nl @
     ''            acceptButton.click();'' @ nl @
     ''            console.log('Clicked cookie accept button.');'' @ nl @
     ''        } else {'' @ nl @
     ''            console.log('Cookie accept button not found using selector "button.accept-all".');'' @ nl @
     ''        }'' @ nl @
     ''    })();'' @ nl @
     ''    ''\<close>

definition config :: CrawlerRunConfig where
  "config =
     \<lparr>exclude_external_links = True,
      remove_overlay_elements = True,
      extraction_strategy = JsonCssExtractionStrategy schema,
      scraping_strategy = LXMLWebScrapingStrategy,
      js_code = click_cookie_button_js,
      wait_for = ''css:body''\<rparr>"

subsection \<open>The libraries the handler calls\<close>

text \<open>
  \<^item> \<open>str_upper\<close> is \<^verbatim>\<open>str.upper\<close>.
  \<^item> \<open>aenter\<close> is \<^verbatim>\<open>AsyncWebCrawler(config=...).__aenter__()\<close>: \<open>None\<close> when the session
    opens, \<open>Some e\<close> when it raises \<open>e\<close>.
  \<^item> \<open>arun\<close> is \<^verbatim>\<open>crawler.arun(config=..., url=...)\<close>: it raises, or returns a result whose
    \<^verbatim>\<open>extracted_content\<close> is \<^verbatim>\<open>None\<close> or a string.
  \<^item> \<open>aexit\<close> is \<^verbatim>\<open>__aexit__\<close>, which closes the crawler and returns \<^verbatim>\<open>None\<close> (it never
    swallows an exception of the block): \<open>None\<close> when it closes, \<open>Some e\<close> when closing raises.
  \<^item> \<open>json_loads\<close> is \<^verbatim>\<open>json.loads\<close> on a string.
  \<^item> \<open>str_HTTPException\<close> is \<^verbatim>\<open>str(e)\<close> of an \<^verbatim>\<open>HTTPException\<close> with the given status
    code and detail, which depends on the installed Starlette.
\<close>

record world =
  str_upper :: "string \<Rightarrow> string"
  aenter :: "BrowserConfig \<Rightarrow> py_exception option"
  arun :: "CrawlerRunConfig \<Rightarrow> string \<Rightarrow> py_exception + string option"
  aexit :: "py_exception option"
  json_loads :: "string \<Rightarrow> py_exception + json"
  str_HTTPException :: "int \<Rightarrow> string \<Rightarrow> string"

text \<open>\<^verbatim>\<open>str(e)\<close>.\<close>

fun str_exc :: "world \<Rightarrow> py_exception \<Rightarrow> string" where
  "str_exc w (HTTPException code d) = str_HTTPException w code d"
| "str_exc w (JSONDecodeError msg) = msg"
| "str_exc w (PyException cls msg) = msg"

subsection \<open>Effects: the log and the calls to the crawler\<close>

datatype level = INFO | ERROR

datatype crawler_call =
    Enter BrowserConfig
  | Arun CrawlerRunConfig string
  | Exit

record effects =
  logged :: "(level \<times> string) list"
  calls :: "crawler_call list"

definition logger_info :: "string \<Rightarrow> effects \<Rightarrow> effects" where
  "logger_info msg st = st\<lparr>logged := logged st @ [(INFO, msg)]\<rparr>"

definition logger_error :: "string \<Rightarrow> effects \<Rightarrow> effects" where
  "logger_error msg st = st\<lparr>logged := logged st @ [(ERROR, msg)]\<rparr>"

definition call :: "crawler_call \<Rightarrow> effects \<Rightarrow> effects" where
  "call c st = st\<lparr>calls := calls st @ [c]\<rparr>"

text \<open>An f-string prints \<^verbatim>\<open>None\<close> as the text \<^verbatim>\<open>None\<close>.\<close>

fun format_content :: "string option \<Rightarrow> string" where
  "format_content None = ''None''"
| "format_content (Some s) = s"

subsection \<open>The handlers\<close>

definition read_root :: "effects \<Rightarrow> effects \<times> (py_exception + json)" where
  "read_root st =
     (st, Inr (JObject [(''message'',
        JString ''Welcome to the Real-Time Stock Price API. Use /stock/{symbol} to get prices.'')]))"

definition health_check :: "effects \<Rightarrow> effects \<times> (py_exception + json)" where
  "health_check st = (st, Inr (JObject [(''status'', JString ''healthy'')]))"

text \<open>Line 119: \<^verbatim>\<open>data[0].get("price", None) if data else None\<close>.\<close>

definition price_of :: "json \<Rightarrow> py_exception + json" where
  "price_of data =
     (if truthy data
      then (case getitem0 data of
              Inl e \<Rightarrow> Inl e
            | Inr first \<Rightarrow> get_or_None first ''price'')
      else Inr JNull)"

text \<open>
  Lines 115 and 116, taken when \<^verbatim>\<open>not result.extracted_content\<close> holds, that is when the
  content is \<^verbatim>\<open>None\<close> or the empty string.
\<close>

definition no_content :: "effects \<Rightarrow> effects \<times> (py_exception + json)" where
  "no_content st =
     (logger_error ''No extracted content found.'' st,
      Inl (HTTPException 404 ''Price not found for the given symbol.''))"

text \<open>
  Lines 111 to 125, the block of the \<^verbatim>\<open>async with\<close>. \<open>Inl e\<close> is the exception the block
  raises, \<open>Inr v\<close> the value it returns.
\<close>

definition crawl_block ::
  "world \<Rightarrow> string \<Rightarrow> string \<Rightarrow> effects \<Rightarrow> effects \<times> (py_exception + json)" where
  "crawl_block w symbol url st =
     (let st1 = call (Arun config url) st in
      case arun w config url of
        Inl e \<Rightarrow> (st1, Inl e)
      | Inr extracted_content \<Rightarrow>
          (let st2 = logger_info (''Raw extracted content: '' @ format_content extracted_content) st1 in
           case extracted_content of
             None \<Rightarrow> no_content st2
           | Some content \<Rightarrow>
               if content = [] then no_content st2
               else
                 (case json_loads w content of
                    Inl e \<Rightarrow> (st2, Inl e)
                  | Inr data \<Rightarrow>
                      (case price_of data of
                         Inl e \<Rightarrow> (st2, Inl e)
                       | Inr price \<Rightarrow>
                           if \<not> truthy price
                           then (logger_error ''Price not found in extracted data.'' st2,
                                 Inl (HTTPException 404 ''Price not found in the extracted data.''))
                           else (st2, Inr (JObject [(''symbol'', JString symbol), (''price'', price)]))))))"

text \<open>
  Lines 110 to 125, the body of the \<^verbatim>\<open>try\<close>: the session is opened, the block runs, and
  the session is closed on every way out of the block. An exception of \<^verbatim>\<open>__aenter__\<close>
  leaves before the block; an exception of \<^verbatim>\<open>__aexit__\<close> replaces the outcome of the block.
\<close>

definition try_body ::
  "world \<Rightarrow> string \<Rightarrow> string \<Rightarrow> effects \<Rightarrow> effects \<times> (py_exception + json)" where
  "try_body w symbol url st =
     (let st1 = call (Enter browser_config) st in
      case aenter w browser_config of
        Some e \<Rightarrow> (st1, Inl e)
      | None \<Rightarrow>
          (case crawl_block w symbol url st1 of
             (st2, r) \<Rightarrow>
               (let st3 = call Exit st2 in
                case aexit w of
                  Some e \<Rightarrow> (st3, Inl e)
                | None \<Rightarrow> (st3, r))))"

text \<open>
  Lines 126 to 131, the two \<^verbatim>\<open>except\<close> clauses, tried in order on the exception the
  \<^verbatim>\<open>try\<close> body raised. \<^verbatim>\<open>except Exception\<close> matches every exception that is not a
  \<^verbatim>\<open>JSONDecodeError\<close>, an \<^verbatim>\<open>HTTPException\<close> included.
\<close>

fun except_clauses :: "world \<Rightarrow> py_exception \<Rightarrow> effects \<Rightarrow> effects \<times> (py_exception + json)" where
  "except_clauses w (JSONDecodeError msg) st =
     (logger_error (''JSON decoding error: '' @ str_exc w (JSONDecodeError msg)) st,
      Inl (HTTPException 500
            (''Failed to parse extracted data: '' @ str_exc w (JSONDecodeError msg))))"
| "except_clauses w e st =
     (logger_error (''Error during crawl: '' @ str_exc w e) st,
      Inl (HTTPException 500 (''Error fetching stock price: '' @ str_exc w e)))"

text \<open>Line 62, the f-string \<^verbatim>\<open>f"https://finance.yahoo.com/quote/{symbol}/"\<close>.\<close>

definition yahoo_finance_url :: "string \<Rightarrow> string" where
  "yahoo_finance_url symbol = ''https://finance.yahoo.com/quote/'' @ symbol @ ''/''"

definition get_stock_price ::
  "world \<Rightarrow> string \<Rightarrow> effects \<Rightarrow> effects \<times> (py_exception + json)" where
  "get_stock_price w symbol0 st =
     (let symbol = str_upper w symbol0;
          url = yahoo_finance_url symbol;
          st1 = logger_info (''Attempting to crawl: '' @ url) st
      in case try_body w symbol url st1 of
           (st2, Inr v) \<Rightarrow> (st2, Inr v)
         | (st2, Inl e) \<Rightarrow> except_clauses w e st2)"

subsection \<open>The application\<close>

text \<open>
  The three routes of \<^verbatim>\<open>app\<close>. FastAPI answers 200 with the returned value as JSON, answers
  an \<^verbatim>\<open>HTTPException\<close> with its status code and the body \<^verbatim>\<open>{"detail": detail}\<close>, and
  answers any other exception that leaves a handler with 500 and the plain text
  \<^verbatim>\<open>Internal Server Error\<close>.
\<close>

datatype request = GetRoot | GetHealth | GetStock string

datatype body = JsonBody json | TextBody string

record response =
  status :: int
  content :: body

fun respond :: "py_exception + json \<Rightarrow> response" where
  "respond (Inr v) = \<lparr>status = 200, content = JsonBody v\<rparr>"
| "respond (Inl (HTTPException code d)) =
     \<lparr>status = code, content = JsonBody (JObject [(''detail'', JString d)])\<rparr>"
| "respond (Inl e) = \<lparr>status = 500, content = TextBody ''Internal Server Error''\<rparr>"

fun handler :: "world \<Rightarrow> request \<Rightarrow> effects \<Rightarrow> effects \<times> (py_exception + json)" where
  "handler w GetRoot st = read_root st"
| "handler w GetHealth st = health_check st"
| "handler w (GetStock symbol) st = get_stock_price w symbol st"

definition app :: "world \<Rightarrow> request \<Rightarrow> effects \<Rightarrow> effects \<times> response" where
  "app w req st = (case handler w req st of (st', r) \<Rightarrow> (st', respond r))"

subsection \<open>A concrete world\<close>

text \<open>
  A world to run the handlers in: \<open>ascii_upper\<close> is \<^verbatim>\<open>str.upper\<close> on ASCII text,
  \<open>starlette_str\<close> is \<^verbatim>\<open>HTTPException.__str__\<close> of the current Starlette
  (\<^verbatim>\<open>f"{self.status_code}: {self.detail}"\<close>), and \<open>loads_sample\<close> agrees with
  \<^verbatim>\<open>json.loads\<close> on the four JSON texts it lists and on the text \<^verbatim>\<open>not json\<close>, the only
  texts it is run on. The outcomes of the crawler are the parameters of \<open>sample_world\<close>.
\<close>

definition ascii_upper :: "string \<Rightarrow> string" where
  "ascii_upper s =
     map (\<lambda>c. let n = (of_char c :: nat) in if 97 \<le> n \<and> n \<le> 122 then char_of (n - 32) else c) s"

fun str_nat :: "nat \<Rightarrow> string" where
  "str_nat n =
     (if n < 10 then [''0123456789'' ! n]
      else str_nat (n div 10) @ [''0123456789'' ! (n mod 10)])"

definition str_int :: "int \<Rightarrow> string" where
  "str_int i = (if i < 0 then ''-'' @ str_nat (nat (- i)) else str_nat (nat i))"

definition starlette_str :: "int \<Rightarrow> string \<Rightarrow> string" where
  "starlette_str code d = str_int code @ '': '' @ d"

definition loads_sample :: "string \<Rightarrow> py_exception + json" where
  \<open>loads_sample s =
     (if s = ''[{"price": "189.50"}]'' then Inr (JArray [JObject [(''price'', JString ''189.50'')]])
      else if s = ''[{"price": ""}]'' then Inr (JArray [JObject [(''price'', JString [])]])
      else if s = ''[{}]'' then Inr (JArray [JObject []])
      else if s = ''[]'' then Inr (JArray [])
      else Inl (JSONDecodeError ''Expecting value: line 1 column 1 (char 0)''))\<close>

definition sample_world ::
  "py_exception option \<Rightarrow> (py_exception + string option) \<Rightarrow> py_exception option \<Rightarrow> world" where
  "sample_world entering running exiting =
     \<lparr>str_upper = ascii_upper,
      aenter = (\<lambda>_. entering),
      arun = (\<lambda>_ _. running),
      aexit = exiting,
      json_loads = loads_sample,
      str_HTTPException = starlette_str\<rparr>"

definition no_effects :: effects where
  "no_effects = \<lparr>logged = [], calls = []\<rparr>"

subsection \<open>What one request adds to the effects\<close>

definition calls_made :: "effects \<Rightarrow> effects \<times> 'a \<Rightarrow> crawler_call list" where
  "calls_made st r = drop (length (calls st)) (calls (fst r))"

definition lines_logged :: "effects \<Rightarrow> effects \<times> 'a \<Rightarrow> (level \<times> string) list" where
  "lines_logged st r = drop (length (logged st)) (logged (fst r))"

section \<open>Properties\<close>

subsection \<open>Effects and outcomes of the layers\<close>

lemma calls_logger_info: "calls (logger_info msg st) = calls st"
  by (simp add: logger_info_def)

lemma calls_logger_error: "calls (logger_error msg st) = calls st"
  by (simp add: logger_error_def)

lemma calls_call: "calls (call c st) = calls st @ [c]"
  by (simp add: call_def)

lemma logged_logger_info: "logged (logger_info msg st) = logged st @ [(INFO, msg)]"
  by (simp add: logger_info_def)

lemma logged_logger_error: "logged (logger_error msg st) = logged st @ [(ERROR, msg)]"
  by (simp add: logger_error_def)

lemma logged_call: "logged (call c st) = logged st"
  by (simp add: call_def)

lemmas effects_simps =
  calls_logger_info calls_logger_error calls_call logged_logger_info logged_logger_error logged_call

lemma calls_except_clauses: "calls (fst (except_clauses w e st)) = calls st"
  by (cases e) (simp_all add: effects_simps)

lemma snd_except_clauses:
  "snd (except_clauses w e st) =
     Inl (HTTPException 500
           ((case e of JSONDecodeError msg \<Rightarrow> ''Failed to parse extracted data: ''
                     | _ \<Rightarrow> ''Error fetching stock price: '') @ str_exc w e))"
  by (cases e) simp_all

lemma calls_crawl_block:
  "calls (fst (crawl_block w symbol url st)) = calls st @ [Arun config url]"
  by (simp add: crawl_block_def no_content_def Let_def effects_simps
           split: sum.splits option.splits)

lemma calls_try_body:
  "calls (fst (try_body w symbol url st)) =
     calls st @ Enter browser_config #
       (if aenter w browser_config = None then [Arun config url, Exit] else [])"
proof (cases "aenter w browser_config")
  case None
  obtain st2 r where b: "crawl_block w symbol url (call (Enter browser_config) st) = (st2, r)"
    by (cases "crawl_block w symbol url (call (Enter browser_config) st)")
  have "calls st2 = calls st @ [Enter browser_config, Arun config url]"
    using calls_crawl_block [of w symbol url "call (Enter browser_config) st"] b
    by (simp add: effects_simps)
  with None b show ?thesis
    by (simp add: try_body_def Let_def effects_simps split: option.splits)
next
  case (Some e)
  then show ?thesis
    by (simp add: try_body_def Let_def effects_simps)
qed

lemma calls_get_stock_price:
  "calls (fst (get_stock_price w s st)) =
     calls st @ Enter browser_config #
       (if aenter w browser_config = None
        then [Arun config (yahoo_finance_url (str_upper w s)), Exit] else [])"
proof -
  let ?st1 = "logger_info (''Attempting to crawl: '' @ yahoo_finance_url (str_upper w s)) st"
  obtain st2 r where b:
    "try_body w (str_upper w s) (yahoo_finance_url (str_upper w s)) ?st1 = (st2, r)"
    by (cases "try_body w (str_upper w s) (yahoo_finance_url (str_upper w s)) ?st1")
  have c: "calls st2 = calls st @ Enter browser_config #
       (if aenter w browser_config = None
        then [Arun config (yahoo_finance_url (str_upper w s)), Exit] else [])"
    using calls_try_body [of w "str_upper w s" "yahoo_finance_url (str_upper w s)" ?st1] b
    by (simp add: effects_simps)
  show ?thesis
    unfolding get_stock_price_def Let_def b
    by (cases r) (simp_all add: c calls_except_clauses)
qed

lemma get_stock_price_raises:
  "snd (get_stock_price w s st) = Inl e \<Longrightarrow> \<exists>d. e = HTTPException 500 d"
proof -
  assume a: "snd (get_stock_price w s st) = Inl e"
  let ?st1 = "logger_info (''Attempting to crawl: '' @ yahoo_finance_url (str_upper w s)) st"
  obtain st2 r where b:
    "try_body w (str_upper w s) (yahoo_finance_url (str_upper w s)) ?st1 = (st2, r)"
    by (cases "try_body w (str_upper w s) (yahoo_finance_url (str_upper w s)) ?st1")
  show ?thesis
  proof (cases r)
    case (Inl x)
    with a b show ?thesis
      by (auto simp: get_stock_price_def Let_def snd_except_clauses)
  next
    case (Inr v)
    with a b show ?thesis
      by (simp add: get_stock_price_def Let_def)
  qed
qed

lemma try_body_no_content:
  assumes "aenter w browser_config = None"
      and "arun w config url = Inr c"
      and "c = None \<or> c = Some []"
      and "aexit w = None"
  shows "try_body w symbol url st =
     (call Exit (logger_error ''No extracted content found.''
        (logger_info (''Raw extracted content: '' @ format_content c)
          (call (Arun config url) (call (Enter browser_config) st)))),
      Inl (HTTPException 404 ''Price not found for the given symbol.''))"
  using assms by (auto simp: try_body_def crawl_block_def no_content_def Let_def)

lemma try_body_no_price:
  assumes "aenter w browser_config = None"
      and "arun w config url = Inr (Some c)"
      and "c \<noteq> []"
      and "json_loads w c = Inr data"
      and "price_of data = Inr price"
      and "\<not> truthy price"
      and "aexit w = None"
  shows "try_body w symbol url st =
     (call Exit (logger_error ''Price not found in extracted data.''
        (logger_info (''Raw extracted content: '' @ c)
          (call (Arun config url) (call (Enter browser_config) st)))),
      Inl (HTTPException 404 ''Price not found in the extracted data.''))"
  using assms by (simp add: try_body_def crawl_block_def Let_def)

lemma try_body_price:
  assumes "aenter w browser_config = None"
      and "arun w config url = Inr (Some c)"
      and "c \<noteq> []"
      and "json_loads w c = Inr data"
      and "price_of data = Inr price"
      and "truthy price"
      and "aexit w = None"
  shows "try_body w symbol url st =
     (call Exit (logger_info (''Raw extracted content: '' @ c)
          (call (Arun config url) (call (Enter browser_config) st))),
      Inr (JObject [(''symbol'', JString symbol), (''price'', price)]))"
  using assms by (simp add: try_body_def crawl_block_def Let_def)

lemma try_body_loads_raises:
  assumes "aenter w browser_config = None"
      and "arun w config url = Inr (Some c)"
      and "c \<noteq> []"
      and "json_loads w c = Inl e"
      and "aexit w = None"
  shows "try_body w symbol url st =
     (call Exit (logger_info (''Raw extracted content: '' @ c)
          (call (Arun config url) (call (Enter browser_config) st))),
      Inl e)"
  using assms by (simp add: try_body_def crawl_block_def Let_def)

lemma try_body_returns:
  "try_body w symbol url st = (st', Inr v) \<Longrightarrow>
     \<exists>price. v = JObject [(''symbol'', JString symbol), (''price'', price)]"
  by (auto simp: try_body_def crawl_block_def no_content_def Let_def
           split: option.splits sum.splits prod.splits if_splits)

lemma app_stock:
  "app w (GetStock s) st =
     (fst (get_stock_price w s st), respond (snd (get_stock_price w s st)))"
  by (simp add: app_def split: prod.splits)

lemma get_stock_price_unfold:
  "get_stock_price w s st =
     (case try_body w (str_upper w s) (yahoo_finance_url (str_upper w s))
             (logger_info (''Attempting to crawl: '' @ yahoo_finance_url (str_upper w s)) st) of
        (st2, Inr v) \<Rightarrow> (st2, Inr v)
      | (st2, Inl e) \<Rightarrow> except_clauses w e st2)"
  by (simp add: get_stock_price_def Let_def)

lemma calls_made_app_stock:
  "calls_made st (app w (GetStock s) st) =
     Enter browser_config #
       (if aenter w browser_config = None
        then [Arun config (yahoo_finance_url (str_upper w s)), Exit] else [])"
  by (simp add: calls_made_def app_stock calls_get_stock_price)

lemma get_stock_price_returns:
  assumes "snd (get_stock_price w s st) = Inr v"
  shows "\<exists>price. v = JObject [(''symbol'', JString (str_upper w s)), (''price'', price)]"
proof -
  let ?st1 = "logger_info (''Attempting to crawl: '' @ yahoo_finance_url (str_upper w s)) st"
  obtain st2 r where b:
    "try_body w (str_upper w s) (yahoo_finance_url (str_upper w s)) ?st1 = (st2, r)"
    by (cases "try_body w (str_upper w s) (yahoo_finance_url (str_upper w s)) ?st1")
  show ?thesis
  proof (cases r)
    case (Inl e)
    with assms b show ?thesis
      by (simp add: get_stock_price_unfold snd_except_clauses)
  next
    case (Inr v')
    with assms b have "v' = v"
      by (simp add: get_stock_price_unfold)
    with Inr b try_body_returns show ?thesis
      by blast
  qed
qed

subsection \<open>The concrete world evaluated\<close>

lemma sample_world_simps:
  "str_upper (sample_world a b c) = ascii_upper"
  "aenter (sample_world a b c) x = a"
  "arun (sample_world a b c) y z = b"
  "aexit (sample_world a b c) = c"
  "json_loads (sample_world a b c) = loads_sample"
  "str_HTTPException (sample_world a b c) = starlette_str"
  by (simp_all add: sample_world_def)

lemma starlette_str_404: "starlette_str 404 d = ''404: '' @ d"
  by (simp add: starlette_str_def str_int_def)

lemma ascii_upper_samples:
  "ascii_upper ''XXXX'' = ''XXXX''"
  "ascii_upper ''aapl'' = ''AAPL''"
  "ascii_upper ''MSFT'' = ''MSFT''"
  by code_simp+

lemma loads_sample_simps:
  \<open>loads_sample ''[{"price": "189.50"}]'' = Inr (JArray [JObject [(''price'', JString ''189.50'')]])\<close>
  \<open>loads_sample ''[{"price": ""}]'' = Inr (JArray [JObject [(''price'', JString [])]])\<close>
  \<open>loads_sample ''[]'' = Inr (JArray [])\<close>
  \<open>loads_sample ''not json'' = Inl (JSONDecodeError ''Expecting value: line 1 column 1 (char 0)'')\<close>
  by (simp_all add: loads_sample_def)

subsection \<open>Empty content\<close>

text \<open>
  Claim C1 says that empty or absent extracted content is answered with status 404. The block
  does raise \<^verbatim>\<open>HTTPException(status_code=404, ...)\<close> (\<open>try_body_no_content\<close>), but
  the raise stands inside the \<^verbatim>\<open>try\<close>, and \<^verbatim>\<open>except Exception\<close> catches it: whenever
  the session opens and closes and the extracted content is \<^verbatim>\<open>None\<close> or the empty string,
  the response has status 500, and its detail is the text of the caught 404 exception behind
  the prefix \<^verbatim>\<open>Error fetching stock price: \<close>.
\<close>

theorem no_content_answers_500:
  assumes "aenter w browser_config = None"
      and "arun w config (yahoo_finance_url (str_upper w s)) = Inr c"
      and "c = None \<or> c = Some []"
      and "aexit w = None"
  shows "snd (app w (GetStock s) st) =
           \<lparr>status = 500,
            content = JsonBody (JObject [(''detail'',
              JString (''Error fetching stock price: '' @
                       str_HTTPException w 404 ''Price not found for the given symbol.''))])\<rparr>"
  by (simp add: app_stock get_stock_price_unfold try_body_no_content [OF assms])

theorem no_content_answers_500_witness:
  "aenter (sample_world None (Inr None) None) browser_config = None \<and>
   arun (sample_world None (Inr None) None) config
     (yahoo_finance_url (str_upper (sample_world None (Inr None) None) ''XXXX'')) = Inr None \<and>
   aexit (sample_world None (Inr None) None) = None \<and>
   snd (app (sample_world None (Inr None) None) (GetStock ''XXXX'') no_effects) =
     \<lparr>status = 500,
      content = JsonBody (JObject [(''detail'',
        JString ''Error fetching stock price: 404: Price not found for the given symbol.'')])\<rparr>"
  using no_content_answers_500 [of "sample_world None (Inr None) None" "''XXXX''" None no_effects]
  by (simp add: sample_world_simps starlette_str_404)

subsection \<open>Missing or falsy price\<close>

text \<open>
  Claim C2 says that content decoding to an array whose first element has a missing, empty or
  otherwise falsy \<^verbatim>\<open>price\<close> is answered with status 404. As for C1, the 404 raised at line
  123 is caught by \<^verbatim>\<open>except Exception\<close>: whenever the session opens and closes and the
  content decodes to an array whose first element is an object without a truthy
  \<^verbatim>\<open>price\<close>, the response has status 500.
\<close>

theorem falsy_price_answers_500:
  assumes "aenter w browser_config = None"
      and "arun w config (yahoo_finance_url (str_upper w s)) = Inr (Some c)"
      and "c \<noteq> []"
      and "json_loads w c = Inr (JArray (JObject kvs # rest))"
      and "map_of kvs ''price'' = None \<or> (\<exists>p. map_of kvs ''price'' = Some p \<and> \<not> truthy p)"
      and "aexit w = None"
  shows "snd (app w (GetStock s) st) =
           \<lparr>status = 500,
            content = JsonBody (JObject [(''detail'',
              JString (''Error fetching stock price: '' @
                       str_HTTPException w 404 ''Price not found in the extracted data.''))])\<rparr>"
proof -
  from assms(5) obtain price where
    "price_of (JArray (JObject kvs # rest)) = Inr price" "\<not> truthy price"
    by (auto simp: price_of_def)
  from try_body_no_price [OF assms(1-4) this assms(6)] show ?thesis
    by (simp add: app_stock get_stock_price_unfold)
qed

theorem falsy_price_answers_500_witness:
  \<open>snd (app (sample_world None (Inr (Some ''[{"price": ""}]'')) None) (GetStock ''XXXX'') no_effects) =
     \<lparr>status = 500,
      content = JsonBody (JObject [(''detail'',
        JString ''Error fetching stock price: 404: Price not found in the extracted data.'')])\<rparr>\<close>
  using falsy_price_answers_500
    [of \<open>sample_world None (Inr (Some ''[{"price": ""}]'')) None\<close> "''XXXX''"
        \<open>''[{"price": ""}]''\<close> "[(''price'', JString [])]" "[]" no_effects]
  by (simp add: sample_world_simps starlette_str_404 loads_sample_def)

subsection \<open>The symbol is upper-cased\<close>

text \<open>
  Claim C3: for every symbol \<open>s\<close>, every URL the handler hands to the crawler is the quote URL
  of \<^verbatim>\<open>s.upper()\<close>, and the \<^verbatim>\<open>symbol\<close> field of a response with status 200 is
  \<^verbatim>\<open>s.upper()\<close>.
\<close>

theorem symbol_uppercased:
  "(\<forall>c u. Arun c u \<in> set (calls_made st (app w (GetStock s) st)) \<longrightarrow>
       u = ''https://finance.yahoo.com/quote/'' @ str_upper w s @ ''/'') \<and>
   (status (snd (app w (GetStock s) st)) = 200 \<longrightarrow>
      (\<exists>price. content (snd (app w (GetStock s) st)) =
         JsonBody (JObject [(''symbol'', JString (str_upper w s)), (''price'', price)])))"
proof (intro conjI allI impI)
  fix c u
  assume "Arun c u \<in> set (calls_made st (app w (GetStock s) st))"
  then show "u = ''https://finance.yahoo.com/quote/'' @ str_upper w s @ ''/''"
    by (simp add: calls_made_app_stock yahoo_finance_url_def split: if_splits)
next
  assume ok: "status (snd (app w (GetStock s) st)) = 200"
  show "\<exists>price. content (snd (app w (GetStock s) st)) =
         JsonBody (JObject [(''symbol'', JString (str_upper w s)), (''price'', price)])"
  proof (cases "snd (get_stock_price w s st)")
    case (Inl e)
    with get_stock_price_raises obtain d where "e = HTTPException 500 d"
      by blast
    with Inl ok show ?thesis
      by (simp add: app_stock)
  next
    case (Inr v)
    with get_stock_price_returns obtain price where
      "v = JObject [(''symbol'', JString (str_upper w s)), (''price'', price)]"
      by blast
    with Inr show ?thesis
      by (simp add: app_stock)
  qed
qed

text \<open>The sample world on the content \<^verbatim>\<open>[{"price": "189.50"}]\<close>.\<close>

lemma sample_quote:
  \<open>snd (app (sample_world None (Inr (Some ''[{"price": "189.50"}]'')) None) (GetStock s) st) =
     \<lparr>status = 200,
      content = JsonBody (JObject [(''symbol'', JString (ascii_upper s)), (''price'', JString ''189.50'')])\<rparr>\<close>
proof -
  let ?w = \<open>sample_world None (Inr (Some ''[{"price": "189.50"}]'')) None\<close>
  have p: "price_of (JArray [JObject [(''price'', JString ''189.50'')]]) = Inr (JString ''189.50'')"
    by (simp add: price_of_def)
  have "try_body ?w symbol url st' =
     (call Exit (logger_info (''Raw extracted content: '' @ ''[{\"price\": \"189.50\"}]'')
          (call (Arun config url) (call (Enter browser_config) st'))),
      Inr (JObject [(''symbol'', JString symbol), (''price'', JString ''189.50'')]))"
    for symbol url st'
    by (rule try_body_price [where data = "JArray [JObject [(''price'', JString ''189.50'')]]"])
       (simp_all add: sample_world_simps loads_sample_simps p)
  then show ?thesis
    by (simp add: app_stock get_stock_price_unfold sample_world_simps)
qed

theorem symbol_uppercased_witness:
  \<open>Arun config ''https://finance.yahoo.com/quote/AAPL/''
     \<in> set (calls_made no_effects
          (app (sample_world None (Inr (Some ''[{"price": "189.50"}]'')) None) (GetStock ''aapl'') no_effects)) \<and>
   status (snd (app (sample_world None (Inr (Some ''[{"price": "189.50"}]'')) None) (GetStock ''aapl'') no_effects)) = 200 \<and>
   (\<exists>price. content (snd (app (sample_world None (Inr (Some ''[{"price": "189.50"}]'')) None) (GetStock ''aapl'') no_effects)) =
      JsonBody (JObject [(''symbol'', JString ''AAPL''), (''price'', price)]))\<close>
proof -
  let ?w = \<open>sample_world None (Inr (Some ''[{"price": "189.50"}]'')) None\<close>
  have c: "Arun config (yahoo_finance_url (ascii_upper ''aapl''))
             \<in> set (calls_made no_effects (app ?w (GetStock ''aapl'') no_effects))"
    by (simp add: calls_made_app_stock sample_world_simps)
  have u: "yahoo_finance_url (ascii_upper ''aapl'') = ''https://finance.yahoo.com/quote/AAPL/''"
    using symbol_uppercased [of no_effects ?w "''aapl''"] c
    by (simp add: sample_world_simps ascii_upper_samples)
  have ok: "status (snd (app ?w (GetStock ''aapl'') no_effects)) = 200"
    by (simp add: sample_quote)
  show ?thesis
    using symbol_uppercased [of no_effects ?w "''aapl''"] c u ok
    by (simp add: sample_world_simps ascii_upper_samples)
qed

subsection \<open>Content that is not JSON\<close>

text \<open>
  Claim C4: when the session opens and closes, the extracted content is not empty and
  \<^verbatim>\<open>json.loads\<close> raises \<^verbatim>\<open>JSONDecodeError\<close> on it, the response has status 500 and its
  detail is \<^verbatim>\<open>Failed to parse extracted data: \<close> followed by the text of the decoder's error.
\<close>

theorem malformed_content_answers_500:
  assumes "aenter w browser_config = None"
      and "arun w config (yahoo_finance_url (str_upper w s)) = Inr (Some c)"
      and "c \<noteq> []"
      and "json_loads w c = Inl (JSONDecodeError msg)"
      and "aexit w = None"
  shows "snd (app w (GetStock s) st) =
           \<lparr>status = 500,
            content = JsonBody (JObject [(''detail'',
              JString (''Failed to parse extracted data: '' @ msg))])\<rparr>"
  by (simp add: app_stock get_stock_price_unfold try_body_loads_raises [OF assms])

theorem malformed_content_answers_500_witness:
  "aenter (sample_world None (Inr (Some ''not json'')) None) browser_config = None \<and>
   aexit (sample_world None (Inr (Some ''not json'')) None) = None \<and>
   json_loads (sample_world None (Inr (Some ''not json'')) None) ''not json'' =
     Inl (JSONDecodeError ''Expecting value: line 1 column 1 (char 0)'') \<and>
   snd (app (sample_world None (Inr (Some ''not json'')) None) (GetStock ''MSFT'') no_effects) =
     \<lparr>status = 500,
      content = JsonBody (JObject [(''detail'',
        JString ''Failed to parse extracted data: Expecting value: line 1 column 1 (char 0)'')])\<rparr>"
  using malformed_content_answers_500
    [of "sample_world None (Inr (Some ''not json'')) None" "''MSFT''" "''not json''"
        "''Expecting value: line 1 column 1 (char 0)''" no_effects]
  by (simp add: sample_world_simps loads_sample_simps)

subsection \<open>A quote\<close>

text \<open>
  Claim C5: for the request \<^verbatim>\<open>GET /stock/MSFT\<close>, when the crawler returns the content
  \<^verbatim>\<open>[{"price": "189.50"}]\<close> (which \<^verbatim>\<open>json.loads\<close> decodes to a list of one \<^verbatim>\<open>dict\<close>, and
  \<^verbatim>\<open>"MSFT".upper()\<close> being \<^verbatim>\<open>"MSFT"\<close>), the response has status 200 and the body
  \<^verbatim>\<open>{"symbol": "MSFT", "price": "189.50"}\<close>.
\<close>

theorem msft_quote:
  assumes "str_upper w ''MSFT'' = ''MSFT''"
      and "aenter w browser_config = None"
      and \<open>arun w config ''https://finance.yahoo.com/quote/MSFT/'' = Inr (Some ''[{"price": "189.50"}]'')\<close>
      and \<open>json_loads w ''[{"price": "189.50"}]'' = Inr (JArray [JObject [(''price'', JString ''189.50'')]])\<close>
      and "aexit w = None"
  shows "snd (app w (GetStock ''MSFT'') st) =
           \<lparr>status = 200,
            content = JsonBody (JObject [(''symbol'', JString ''MSFT''), (''price'', JString ''189.50'')])\<rparr>"
proof -
  have u: "yahoo_finance_url ''MSFT'' = ''https://finance.yahoo.com/quote/MSFT/''"
    by (simp add: yahoo_finance_url_def)
  have p: "price_of (JArray [JObject [(''price'', JString ''189.50'')]]) = Inr (JString ''189.50'')"
    by (simp add: price_of_def)
  have "try_body w ''MSFT'' (yahoo_finance_url ''MSFT'') st' =
     (call Exit (logger_info (''Raw extracted content: '' @ ''[{\"price\": \"189.50\"}]'')
          (call (Arun config (yahoo_finance_url ''MSFT'')) (call (Enter browser_config) st'))),
      Inr (JObject [(''symbol'', JString ''MSFT''), (''price'', JString ''189.50'')]))"
    for st'
    by (rule try_body_price [where data = "JArray [JObject [(''price'', JString ''189.50'')]]"])
       (simp_all add: assms u p)
  then show ?thesis
    by (simp add: app_stock get_stock_price_unfold assms(1))
qed

theorem msft_quote_witness:
  \<open>str_upper (sample_world None (Inr (Some ''[{"price": "189.50"}]'')) None) ''MSFT'' = ''MSFT'' \<and>
   arun (sample_world None (Inr (Some ''[{"price": "189.50"}]'')) None) config
     ''https://finance.yahoo.com/quote/MSFT/'' = Inr (Some ''[{"price": "189.50"}]'') \<and>
   json_loads (sample_world None (Inr (Some ''[{"price": "189.50"}]'')) None) ''[{"price": "189.50"}]'' =
     Inr (JArray [JObject [(''price'', JString ''189.50'')]]) \<and>
   snd (app (sample_world None (Inr (Some ''[{"price": "189.50"}]'')) None) (GetStock ''MSFT'') no_effects) =
     \<lparr>status = 200,
      content = JsonBody (JObject [(''symbol'', JString ''MSFT''), (''price'', JString ''189.50'')])\<rparr>\<close>
  using msft_quote [of \<open>sample_world None (Inr (Some ''[{"price": "189.50"}]'')) None\<close> no_effects]
  by (simp add: sample_world_simps loads_sample_simps ascii_upper_samples)

subsection \<open>Health\<close>

text \<open>
  Claim C7: in every world and from every state of the effects, \<^verbatim>\<open>GET /health\<close> is answered
  with status 200 and the body \<^verbatim>\<open>{"status": "healthy"}\<close>, it leaves the effects as they
  were, and it makes no call to the crawler.
\<close>

theorem health_check_healthy:
  "app w GetHealth st =
     (st, \<lparr>status = 200, content = JsonBody (JObject [(''status'', JString ''healthy'')])\<rparr>) \<and>
   calls_made st (app w GetHealth st) = []"
  by (simp add: app_def health_check_def calls_made_def)

subsection \<open>Failures of the crawler\<close>

lemma try_body_enter_raises:
  "aenter w browser_config = Some e \<Longrightarrow> snd (try_body w symbol url st) = Inl e"
  by (simp add: try_body_def Let_def)

lemma try_body_exit_raises:
  "aenter w browser_config = None \<Longrightarrow> aexit w = Some e \<Longrightarrow>
     snd (try_body w symbol url st) = Inl e"
  by (simp add: try_body_def Let_def split: prod.splits)

lemma try_body_arun_raises:
  "aenter w browser_config = None \<Longrightarrow> aexit w = None \<Longrightarrow> arun w config url = Inl e \<Longrightarrow>
     snd (try_body w symbol url st) = Inl e"
  by (simp add: try_body_def crawl_block_def Let_def)

lemma get_stock_price_handles:
  assumes "snd (try_body w (str_upper w s) (yahoo_finance_url (str_upper w s))
             (logger_info (''Attempting to crawl: '' @ yahoo_finance_url (str_upper w s)) st)) = Inl e"
  shows "snd (get_stock_price w s st) =
           Inl (HTTPException 500
                 ((case e of JSONDecodeError msg \<Rightarrow> ''Failed to parse extracted data: ''
                           | _ \<Rightarrow> ''Error fetching stock price: '') @ str_exc w e))"
  using assms
  by (cases "try_body w (str_upper w s) (yahoo_finance_url (str_upper w s))
             (logger_info (''Attempting to crawl: '' @ yahoo_finance_url (str_upper w s)) st)")
     (simp add: get_stock_price_unfold snd_except_clauses)

text \<open>
  Claim C6: when the crawler raises an exception \<open>e\<close> that is not a \<^verbatim>\<open>JSONDecodeError\<close>
  (on opening the session, in \<^verbatim>\<open>arun\<close>, or on closing the session), the response has status
  500 and the detail \<^verbatim>\<open>Error fetching stock price: \<close> followed by \<^verbatim>\<open>str(e)\<close>. And in every
  world the handler either returns a value or raises an \<^verbatim>\<open>HTTPException\<close> with status 500:
  no other exception leaves it.
\<close>

theorem crawler_failure_answers_500:
  "((aenter w browser_config = Some e \<or>
     (aenter w browser_config = None \<and> aexit w = Some e) \<or>
     (aenter w browser_config = None \<and> aexit w = None \<and>
      arun w config (yahoo_finance_url (str_upper w s)) = Inl e)) \<and>
    (\<forall>msg. e \<noteq> JSONDecodeError msg) \<longrightarrow>
    snd (app w (GetStock s) st) =
      \<lparr>status = 500,
       content = JsonBody (JObject [(''detail'',
         JString (''Error fetching stock price: '' @ str_exc w e))])\<rparr>) \<and>
   ((\<exists>v. snd (handler w (GetStock s) st) = Inr v) \<or>
    (\<exists>d. snd (handler w (GetStock s) st) = Inl (HTTPException 500 d)))"
proof (intro conjI impI)
  assume a: "(aenter w browser_config = Some e \<or>
     (aenter w browser_config = None \<and> aexit w = Some e) \<or>
     (aenter w browser_config = None \<and> aexit w = None \<and>
      arun w config (yahoo_finance_url (str_upper w s)) = Inl e)) \<and>
    (\<forall>msg. e \<noteq> JSONDecodeError msg)"
  let ?st1 = "logger_info (''Attempting to crawl: '' @ yahoo_finance_url (str_upper w s)) st"
  from a have "snd (try_body w (str_upper w s) (yahoo_finance_url (str_upper w s)) ?st1) = Inl e"
    using try_body_enter_raises try_body_exit_raises try_body_arun_raises by blast
  from get_stock_price_handles [OF this] a
  show "snd (app w (GetStock s) st) =
      \<lparr>status = 500,
       content = JsonBody (JObject [(''detail'',
         JString (''Error fetching stock price: '' @ str_exc w e))])\<rparr>"
    by (cases e) (simp_all add: app_stock)
next
  show "(\<exists>v. snd (handler w (GetStock s) st) = Inr v) \<or>
    (\<exists>d. snd (handler w (GetStock s) st) = Inl (HTTPException 500 d))"
    using get_stock_price_raises [of w s st]
    by (cases "snd (get_stock_price w s st)") auto
qed

theorem crawler_failure_answers_500_witness:
  "arun (sample_world None (Inl (PyException ''TimeoutError'' ''Timeout 60000ms exceeded.'')) None)
     config (yahoo_finance_url ''MSFT'') = Inl (PyException ''TimeoutError'' ''Timeout 60000ms exceeded.'') \<and>
   snd (app (sample_world None (Inl (PyException ''TimeoutError'' ''Timeout 60000ms exceeded.'')) None)
          (GetStock ''MSFT'') no_effects) =
     \<lparr>status = 500,
      content = JsonBody (JObject [(''detail'',
        JString ''Error fetching stock price: Timeout 60000ms exceeded.'')])\<rparr>"
  using crawler_failure_answers_500
    [of "sample_world None (Inl (PyException ''TimeoutError'' ''Timeout 60000ms exceeded.'')) None"
        "PyException ''TimeoutError'' ''Timeout 60000ms exceeded.''" "''MSFT''" no_effects]
  by (simp add: sample_world_simps ascii_upper_samples)

subsection \<open>The two causes of a missing price\<close>

lemma logged_except_clauses:
  "logged (fst (except_clauses w e st)) =
     logged st @ [(ERROR, (case e of JSONDecodeError msg \<Rightarrow> ''JSON decoding error: ''
                                   | _ \<Rightarrow> ''Error during crawl: '') @ str_exc w e)]"
  by (cases e) (simp_all add: effects_simps)

lemma lines_logged_no_content:
  assumes "aenter w browser_config = None"
      and "arun w config (yahoo_finance_url (str_upper w s)) = Inr c"
      and "c = None \<or> c = Some []"
      and "aexit w = None"
  shows "lines_logged st (app w (GetStock s) st) =
     [(INFO, ''Attempting to crawl: '' @ yahoo_finance_url (str_upper w s)),
      (INFO, ''Raw extracted content: '' @ format_content c),
      (ERROR, ''No extracted content found.''),
      (ERROR, ''Error during crawl: '' @
              str_HTTPException w 404 ''Price not found for the given symbol.'')]"
  by (simp add: lines_logged_def app_stock get_stock_price_unfold try_body_no_content [OF assms]
        logged_except_clauses effects_simps)

lemma lines_logged_no_price:
  assumes "aenter w browser_config = None"
      and "arun w config (yahoo_finance_url (str_upper w s)) = Inr (Some c)"
      and "c \<noteq> []"
      and "json_loads w c = Inr data"
      and "price_of data = Inr price"
      and "\<not> truthy price"
      and "aexit w = None"
  shows "lines_logged st (app w (GetStock s) st) =
     [(INFO, ''Attempting to crawl: '' @ yahoo_finance_url (str_upper w s)),
      (INFO, ''Raw extracted content: '' @ c),
      (ERROR, ''Price not found in extracted data.''),
      (ERROR, ''Error during crawl: '' @
              str_HTTPException w 404 ''Price not found in the extracted data.'')]"
  by (simp add: lines_logged_def app_stock get_stock_price_unfold try_body_no_price [OF assms]
        logged_except_clauses effects_simps)

text \<open>
  Claim C8: the exception raised when the crawler returns no content and the exception raised
  when the content holds no truthy price carry different details, and the requests log
  different error lines: \<^verbatim>\<open>No extracted content found.\<close> is logged in the first case only,
  \<^verbatim>\<open>Price not found in extracted data.\<close> in the second case only.
\<close>

theorem not_found_causes_distinct:
  assumes "aenter w1 browser_config = None"
      and "arun w1 config (yahoo_finance_url (str_upper w1 s1)) = Inr c1"
      and "c1 = None \<or> c1 = Some []"
      and "aexit w1 = None"
      and "aenter w2 browser_config = None"
      and "arun w2 config (yahoo_finance_url (str_upper w2 s2)) = Inr (Some c2)"
      and "c2 \<noteq> []"
      and "json_loads w2 c2 = Inr data"
      and "price_of data = Inr price"
      and "\<not> truthy price"
      and "aexit w2 = None"
  shows "\<exists>d1 d2.
           snd (try_body w1 (str_upper w1 s1) (yahoo_finance_url (str_upper w1 s1)) t1) =
             Inl (HTTPException 404 d1) \<and>
           snd (try_body w2 (str_upper w2 s2) (yahoo_finance_url (str_upper w2 s2)) t2) =
             Inl (HTTPException 404 d2) \<and>
           d1 \<noteq> d2 \<and>
           (ERROR, ''No extracted content found.'')
             \<in> set (lines_logged st1 (app w1 (GetStock s1) st1)) \<and>
           (ERROR, ''No extracted content found.'')
             \<notin> set (lines_logged st2 (app w2 (GetStock s2) st2)) \<and>
           (ERROR, ''Price not found in extracted data.'')
             \<in> set (lines_logged st2 (app w2 (GetStock s2) st2)) \<and>
           (ERROR, ''Price not found in extracted data.'')
             \<notin> set (lines_logged st1 (app w1 (GetStock s1) st1))"
proof -
  have 1: "snd (try_body w1 (str_upper w1 s1) (yahoo_finance_url (str_upper w1 s1)) t1) =
             Inl (HTTPException 404 ''Price not found for the given symbol.'')"
    by (simp add: try_body_no_content [OF assms(1-4)])
  have 2: "snd (try_body w2 (str_upper w2 s2) (yahoo_finance_url (str_upper w2 s2)) t2) =
             Inl (HTTPException 404 ''Price not found in the extracted data.'')"
    by (simp add: try_body_no_price [OF assms(5-11)])
  have 3: "''Price not found for the given symbol.'' \<noteq> ''Price not found in the extracted data.''"
    by simp
  have 4: "(ERROR, ''No extracted content found.'')
             \<in> set (lines_logged st1 (app w1 (GetStock s1) st1))"
    and 5: "(ERROR, ''Price not found in extracted data.'')
             \<notin> set (lines_logged st1 (app w1 (GetStock s1) st1))"
    by (simp_all add: lines_logged_no_content [OF assms(1-4)])
  have 6: "(ERROR, ''Price not found in extracted data.'')
             \<in> set (lines_logged st2 (app w2 (GetStock s2) st2))"
    and 7: "(ERROR, ''No extracted content found.'')
             \<notin> set (lines_logged st2 (app w2 (GetStock s2) st2))"
    by (simp_all add: lines_logged_no_price [OF assms(5-11)])
  from 1 2 3 4 5 6 7 show ?thesis
    by blast
qed

theorem not_found_causes_distinct_witness:
  \<open>\<exists>d1 d2.
     snd (try_body (sample_world None (Inr None) None) ''XXXX'' (yahoo_finance_url ''XXXX'') no_effects) =
       Inl (HTTPException 404 d1) \<and>
     snd (try_body (sample_world None (Inr (Some ''[{"price": ""}]'')) None) ''XXXX''
            (yahoo_finance_url ''XXXX'') no_effects) =
       Inl (HTTPException 404 d2) \<and>
     d1 \<noteq> d2 \<and>
     (ERROR, ''No extracted content found.'')
       \<in> set (lines_logged no_effects
                (app (sample_world None (Inr None) None) (GetStock ''XXXX'') no_effects)) \<and>
     (ERROR, ''No extracted content found.'')
       \<notin> set (lines_logged no_effects
                (app (sample_world None (Inr (Some ''[{"price": ""}]'')) None) (GetStock ''XXXX'') no_effects)) \<and>
     (ERROR, ''Price not found in extracted data.'')
       \<in> set (lines_logged no_effects
                (app (sample_world None (Inr (Some ''[{"price": ""}]'')) None) (GetStock ''XXXX'') no_effects)) \<and>
     (ERROR, ''Price not found in extracted data.'')
       \<notin> set (lines_logged no_effects
                (app (sample_world None (Inr None) None) (GetStock ''XXXX'') no_effects))\<close>
proof -
  let ?w1 = "sample_world None (Inr None) None"
  let ?w2 = \<open>sample_world None (Inr (Some ''[{"price": ""}]'')) None\<close>
  have a: "aenter ?w1 browser_config = None"
       "arun ?w1 config (yahoo_finance_url (str_upper ?w1 ''XXXX'')) = Inr None"
       "None = None \<or> None = Some []"
       "aexit ?w1 = None"
    by (simp_all add: sample_world_simps)
  have b: "aenter ?w2 browser_config = None"
       \<open>arun ?w2 config (yahoo_finance_url (str_upper ?w2 ''XXXX'')) = Inr (Some ''[{"price": ""}]'')\<close>
       \<open>''[{"price": ""}]'' \<noteq> []\<close>
       \<open>json_loads ?w2 ''[{"price": ""}]'' = Inr (JArray [JObject [(''price'', JString [])]])\<close>
       "price_of (JArray [JObject [(''price'', JString [])]]) = Inr (JString [])"
       "\<not> truthy (JString [])"
       "aexit ?w2 = None"
    by (simp_all add: sample_world_simps loads_sample_simps price_of_def)
  from not_found_causes_distinct [OF a b, of no_effects no_effects no_effects no_effects]
  show ?thesis
    by (simp add: sample_world_simps ascii_upper_samples)
qed

subsection \<open>The configuration is the same for every request\<close>

text \<open>
  Claim C9: take two requests \<^verbatim>\<open>GET /stock/{s}\<close>, in any two worlds, for any two symbols,
  from any two states of the effects. A browser configuration handed to the crawler by the
  first equals one handed to it by the second, and both are \<open>browser_config\<close>; a run
  configuration handed to \<^verbatim>\<open>arun\<close> by the first equals one handed to it by the second, both
  are \<open>config\<close>, whose extraction strategy is built from \<open>schema\<close> and whose script is
  \<open>click_cookie_button_js\<close>.
\<close>

theorem configuration_constant:
  "(Enter b1 \<in> set (calls_made st1 (app w1 (GetStock s1) st1)) \<and>
    Enter b2 \<in> set (calls_made st2 (app w2 (GetStock s2) st2)) \<longrightarrow>
      b1 = b2 \<and> b1 = browser_config) \<and>
   (Arun c1 u1 \<in> set (calls_made st1 (app w1 (GetStock s1) st1)) \<and>
    Arun c2 u2 \<in> set (calls_made st2 (app w2 (GetStock s2) st2)) \<longrightarrow>
      c1 = c2 \<and> c1 = config \<and> extraction_strategy c1 = JsonCssExtractionStrategy schema \<and>
      js_code c1 = click_cookie_button_js)"
  by (auto simp: calls_made_app_stock config_def split: if_splits)

theorem configuration_constant_witness:
  \<open>Enter browser_config
     \<in> set (calls_made no_effects (app (sample_world None (Inr None) None) (GetStock ''aapl'') no_effects)) \<and>
   Enter browser_config
     \<in> set (calls_made no_effects
          (app (sample_world None (Inr (Some ''[{"price": "189.50"}]'')) None) (GetStock ''MSFT'') no_effects)) \<and>
   Arun config ''https://finance.yahoo.com/quote/AAPL/''
     \<in> set (calls_made no_effects (app (sample_world None (Inr None) None) (GetStock ''aapl'') no_effects)) \<and>
   Arun config ''https://finance.yahoo.com/quote/MSFT/''
     \<in> set (calls_made no_effects
          (app (sample_world None (Inr (Some ''[{"price": "189.50"}]'')) None) (GetStock ''MSFT'') no_effects)) \<and>
   extraction_strategy config = JsonCssExtractionStrategy schema \<and>
   js_code config = click_cookie_button_js\<close>
proof -
  let ?w1 = "sample_world None (Inr None) None"
  let ?w2 = \<open>sample_world None (Inr (Some ''[{"price": "189.50"}]'')) None\<close>
  have e1: "Enter browser_config \<in> set (calls_made no_effects (app ?w1 (GetStock ''aapl'') no_effects))"
    and e2: "Enter browser_config \<in> set (calls_made no_effects (app ?w2 (GetStock ''MSFT'') no_effects))"
    and r1: "Arun config ''https://finance.yahoo.com/quote/AAPL/''
               \<in> set (calls_made no_effects (app ?w1 (GetStock ''aapl'') no_effects))"
    and r2: "Arun config ''https://finance.yahoo.com/quote/MSFT/''
               \<in> set (calls_made no_effects (app ?w2 (GetStock ''MSFT'') no_effects))"
    by (simp_all add: calls_made_app_stock sample_world_simps ascii_upper_samples
          yahoo_finance_url_def)
  from configuration_constant
    [of browser_config no_effects ?w1 "''aapl''" browser_config no_effects ?w2 "''MSFT''"
        config "''https://finance.yahoo.com/quote/AAPL/''"
        config "''https://finance.yahoo.com/quote/MSFT/''"]
    e1 e2 r1 r2
  show ?thesis
    by simp
qed

subsection \<open>The first element is read under a guard\<close>

lemma price_of_no_IndexError: "price_of data \<noteq> Inl (PyException ''IndexError'' msg)"
proof (cases "truthy data")
  case False
  then show ?thesis
    by (simp add: price_of_def)
next
  case True
  then show ?thesis
    by (cases data rule: getitem0.cases; cases "getitem0 data")
       (auto simp: price_of_def quoted_def elim: get_or_None.elims)
qed

text \<open>
  Claim C10: \<^verbatim>\<open>data[0]\<close> on the empty list would raise \<^verbatim>\<open>IndexError\<close>, but line 119 reads
  the first element only when \<^verbatim>\<open>data\<close> is truthy: on the empty list the price is
  \<^verbatim>\<open>None\<close>, for no decoded value does line 119 raise \<^verbatim>\<open>IndexError\<close>, and when the content
  decodes to the empty list the block logs \<^verbatim>\<open>Price not found in extracted data.\<close> and raises
  the exception of line 123.
\<close>

theorem empty_array_guarded:
  "getitem0 (JArray []) = Inl (PyException ''IndexError'' ''list index out of range'') \<and>
   price_of (JArray []) = Inr JNull \<and>
   (\<forall>data msg. price_of data \<noteq> Inl (PyException ''IndexError'' msg)) \<and>
   (aenter w browser_config = None \<and> arun w config url = Inr (Some c) \<and> c \<noteq> [] \<and>
    json_loads w c = Inr (JArray []) \<and> aexit w = None \<longrightarrow>
      try_body w symbol url st =
        (call Exit (logger_error ''Price not found in extracted data.''
           (logger_info (''Raw extracted content: '' @ c)
             (call (Arun config url) (call (Enter browser_config) st)))),
         Inl (HTTPException 404 ''Price not found in the extracted data.'')))"
proof (intro conjI impI allI)
  show "getitem0 (JArray []) = Inl (PyException ''IndexError'' ''list index out of range'')"
    by simp
  show p: "price_of (JArray []) = Inr JNull"
    by (simp add: price_of_def)
  show "price_of data \<noteq> Inl (PyException ''IndexError'' msg)" for data msg
    by (rule price_of_no_IndexError)
  assume a: "aenter w browser_config = None \<and> arun w config url = Inr (Some c) \<and> c \<noteq> [] \<and>
    json_loads w c = Inr (JArray []) \<and> aexit w = None"
  show "try_body w symbol url st =
        (call Exit (logger_error ''Price not found in extracted data.''
           (logger_info (''Raw extracted content: '' @ c)
             (call (Arun config url) (call (Enter browser_config) st)))),
         Inl (HTTPException 404 ''Price not found in the extracted data.''))"
    by (rule try_body_no_price [where data = "JArray []" and price = JNull])
       (simp_all add: a p)
qed

theorem empty_array_guarded_witness:
  "json_loads (sample_world None (Inr (Some ''[]'')) None) ''[]'' = Inr (JArray []) \<and>
   snd (try_body (sample_world None (Inr (Some ''[]'')) None) ''MSFT'' (yahoo_finance_url ''MSFT'')
         no_effects) =
     Inl (HTTPException 404 ''Price not found in the extracted data.'') \<and>
   logged (fst (try_body (sample_world None (Inr (Some ''[]'')) None) ''MSFT''
         (yahoo_finance_url ''MSFT'') no_effects)) =
     [(INFO, ''Raw extracted content: []''), (ERROR, ''Price not found in extracted data.'')]"
  using empty_array_guarded
    [of "sample_world None (Inr (Some ''[]'')) None" "yahoo_finance_url ''MSFT''" "''[]''"
        "''MSFT''" no_effects]
  by (simp add: sample_world_simps loads_sample_simps effects_simps no_effects_def)

end
